theory Spec2Isabelle
  imports Complex_Main
begin

section \<open>Python values and library functions used by the two tools\<close>

text \<open>
  Strings are \<open>string\<close>: a character stands for the code point of the same number, so
  the texts modelled are those over the code points below 256. The library functions
  below are the Python built-ins the source calls, on such texts.
\<close>

datatype py_error =
  JSONDecodeError | IOError | UnicodeDecodeError | TypeError | AttributeError | ValueError

text \<open>
  A Python float: a finite binary64 value, kept as the rational it denotes (the sign of
  zero is not kept), or one of the three special values.
\<close>

datatype pyfloat = Finite rat | PosInf | NegInf | NaN

text \<open>What \<open>json.load\<close> can return.\<close>

datatype json =
  JNull
  | JBool bool
  | JInt int
  | JFloat pyfloat
  | JString string
  | JArray "json list"
  | JObject "(string \<times> json) list"

text \<open>\<open>s.startswith(p)\<close> and \<open>p in s\<close> on strings.\<close>

fun starts_with :: "'a list \<Rightarrow> 'a list \<Rightarrow> bool" where
  "starts_with [] s = True"
| "starts_with (p # ps) [] = False"
| "starts_with (p # ps) (c # cs) = (p = c \<and> starts_with ps cs)"

fun is_substring :: "'a list \<Rightarrow> 'a list \<Rightarrow> bool" where
  "is_substring p [] = (p = [])"
| "is_substring p (c # cs) = (starts_with p (c # cs) \<or> is_substring p cs)"

text \<open>
  \<open>str.isspace\<close> and \<open>str.strip()\<close>: the white space below 256 is the ASCII white space,
  the four separators \<open>0x1C\<close> to \<open>0x1F\<close>, next line (\<open>0x85\<close>) and the no-break space
  (\<open>0xA0\<close>).
\<close>

definition py_isspace :: "char \<Rightarrow> bool" where
  "py_isspace c = (c \<in> set [CHR 0x09, CHR 0x0A, CHR 0x0B, CHR 0x0C, CHR 0x0D,
                              CHR 0x1C, CHR 0x1D, CHR 0x1E, CHR 0x1F, CHR 0x20,
                              CHR 0x85, CHR 0xA0])"

definition strip :: "string \<Rightarrow> string" where
  "strip s = rev (dropWhile py_isspace (rev (dropWhile py_isspace s)))"

text \<open>
  \<open>str.lower()\<close> and \<open>str.upper()\<close>: the letters \<open>A\<close> to \<open>Z\<close> and the capital letters
  \<open>0xC0\<close> to \<open>0xDE\<close> (without the multiplication sign \<open>0xD7\<close>) have their small forms 32
  places up. The sharp s (\<open>0xDF\<close>) becomes \<open>SS\<close> in upper case; the capital forms of the
  micro sign (\<open>0xB5\<close>) and of \<open>0xFF\<close> lie above 255, and \<open>upper_chars\<close> leaves these two as
  they are. The source applies \<open>upper\<close> to the step names \<open>decode\<close> and \<open>export\<close> only.
\<close>

definition lower_char :: "char \<Rightarrow> char" where
  "lower_char c =
     (let n = (of_char c :: nat)
      in if (65 \<le> n \<and> n \<le> 90) \<or> (192 \<le> n \<and> n \<le> 222 \<and> n \<noteq> 215)
         then char_of (n + 32) else c)"

definition upper_chars :: "char \<Rightarrow> string" where
  "upper_chars c =
     (let n = (of_char c :: nat)
      in if (97 \<le> n \<and> n \<le> 122) \<or> (224 \<le> n \<and> n \<le> 254 \<and> n \<noteq> 247)
         then [char_of (n - 32)]
         else if n = 223 then ''SS''
         else [c])"

definition py_lower :: "string \<Rightarrow> string" where
  "py_lower s = map lower_char s"

definition py_upper :: "string \<Rightarrow> string" where
  "py_upper s = concat (map upper_chars s)"

text \<open>\<open>str(n)\<close> for an integer and \<open>sep.join(xs)\<close>.\<close>

function show_nat :: "nat \<Rightarrow> string" where
  "show_nat n =
     (if n < 10 then [''0123456789'' ! n]
      else show_nat (n div 10) @ [''0123456789'' ! (n mod 10)])"
  by pat_completeness auto
termination
  by (relation "measure id") auto

declare show_nat.simps [simp del]

definition show_int :: "int \<Rightarrow> string" where
  "show_int i = (if i < 0 then ''-'' @ show_nat (nat (- i)) else show_nat (nat i))"

fun py_join :: "string \<Rightarrow> string list \<Rightarrow> string" where
  "py_join sep [] = []"
| "py_join sep [x] = x"
| "py_join sep (x # y # ys) = x @ sep @ py_join sep (y # ys)"

text \<open>Truth value of a JSON value in a condition (\<open>if last_file\<close>).\<close>

fun py_truthy :: "json \<Rightarrow> bool" where
  "py_truthy JNull = False"
| "py_truthy (JBool b) = b"
| "py_truthy (JInt i) = (i \<noteq> 0)"
| "py_truthy (JFloat f) = (f \<noteq> Finite 0)"
| "py_truthy (JString s) = (s \<noteq> [])"
| "py_truthy (JArray xs) = (xs \<noteq> [])"
| "py_truthy (JObject kvs) = (kvs \<noteq> [])"

text \<open>
  A \<open>dict\<close> with string keys is an association list in insertion order;
  \<open>d[k] = v\<close> replaces the value of an existing key in place and appends a new key.
\<close>

fun dict_set :: "(string \<times> json) list \<Rightarrow> string \<Rightarrow> json \<Rightarrow> (string \<times> json) list" where
  "dict_set [] k v = [(k, v)]"
| "dict_set ((k', v') # kvs) k v =
     (if k' = k then (k, v) # kvs else (k', v') # dict_set kvs k v)"

definition dict_get :: "(string \<times> json) list \<Rightarrow> string \<Rightarrow> json \<Rightarrow> json" where
  "dict_get d k dflt = (case map_of d k of None \<Rightarrow> dflt | Some v \<Rightarrow> v)"

section \<open>vhsgui: the configuration manager\<close>

text \<open>The \<open>defaults\<close> dictionary of \<open>ConfigManager.load_config\<close>.\<close>

definition defaults :: "(string \<times> json) list" where
  "defaults =
     [(''decode_path'', JString ''''),
      (''tbc_export_path'', JString ''''),
      (''last_input_file'', JString ''''),
      (''window_width'', JInt 900),
      (''window_height'', JInt 750)]"

text \<open>
  The outcome of \<open>open(CONFIG_FILE, 'r')\<close> followed by \<open>json.load(f)\<close>: an exception
  or the decoded value.
\<close>

datatype file_read = Raises py_error | Loaded json

text \<open>\<open>key not in data\<close> and \<open>data[key] = v\<close> for whatever \<open>json.load\<close> returned.\<close>

fun py_contains :: "json \<Rightarrow> string \<Rightarrow> py_error + bool" where
  "py_contains (JObject kvs) k = Inr (k \<in> set (map fst kvs))"
| "py_contains (JArray xs) k = Inr (JString k \<in> set xs)"
| "py_contains (JString s) k = Inr (is_substring k s)"
| "py_contains _ k = Inl TypeError"

fun py_setitem :: "json \<Rightarrow> string \<Rightarrow> json \<Rightarrow> py_error + json" where
  "py_setitem (JObject kvs) k v = Inr (JObject (dict_set kvs k v))"
| "py_setitem _ k v = Inl TypeError"

text \<open>The loop \<open>for key in defaults: if key not in data: data[key] = defaults[key]\<close>.\<close>

fun merge_defaults :: "(string \<times> json) list \<Rightarrow> json \<Rightarrow> py_error + json" where
  "merge_defaults [] data = Inr data"
| "merge_defaults ((k, v) # ds) data =
     (case py_contains data k of
        Inl e \<Rightarrow> Inl e
      | Inr True \<Rightarrow> merge_defaults ds data
      | Inr False \<Rightarrow>
          (case py_setitem data k v of
             Inl e \<Rightarrow> Inl e
           | Inr data' \<Rightarrow> merge_defaults ds data'))"

text \<open>
  \<open>load_config\<close>: the first argument is \<open>os.path.exists(CONFIG_FILE)\<close>, the second the
  outcome of reading the file. The handler catches \<open>json.JSONDecodeError\<close> and
  \<open>IOError\<close>; any other exception leaves the function.
\<close>

definition load_config :: "bool \<Rightarrow> file_read \<Rightarrow> py_error + json" where
  "load_config file_exists rd =
     (if \<not> file_exists then Inr (JObject defaults)
      else
        (case (case rd of Raises e \<Rightarrow> Inl e | Loaded data \<Rightarrow> merge_defaults defaults data) of
           Inl e \<Rightarrow> (if e = JSONDecodeError \<or> e = IOError then Inr (JObject defaults) else Inl e)
         | Inr data \<Rightarrow> Inr data))"

section \<open>vhsgui: the environment of a handler call\<close>

text \<open>
  What one handler call sees of the operating system: the functions of \<open>os.path\<close>, with
  \<open>path_exists\<close> reading the file system as it is at that moment, whether
  \<open>open(CONFIG_FILE, 'w')\<close> succeeds, and the state a \<open>QProcess\<close> reports when its
  \<open>start\<close> returns. The theorems hold for every such environment.
\<close>

datatype process_state = NotRunning | Starting | Running

record os =
  path_exists :: "string \<Rightarrow> bool"
  path_join :: "string \<Rightarrow> string \<Rightarrow> string"
  path_dirname :: "string \<Rightarrow> string"
  path_basename :: "string \<Rightarrow> string"
  path_normpath :: "string \<Rightarrow> string"
  path_splitext :: "string \<Rightarrow> string \<times> string"
  config_writable :: bool
  start_state :: process_state

text \<open>
  The POSIX flavour of \<open>os.path\<close> over a list of existing paths, for concrete runs.
  There \<open>QProcess.start\<close> returns in the state \<open>Starting\<close>.
\<close>

definition posix_head :: "string \<Rightarrow> string" where
  "posix_head p = rev (dropWhile (\<lambda>c. c \<noteq> CHR ''/'') (rev p))"

definition posix_basename :: "string \<Rightarrow> string" where
  "posix_basename p = rev (takeWhile (\<lambda>c. c \<noteq> CHR ''/'') (rev p))"

definition posix_dirname :: "string \<Rightarrow> string" where
  "posix_dirname p =
     (let head = posix_head p
      in if head \<noteq> [] \<and> \<not> list_all (\<lambda>c. c = CHR ''/'') head
         then rev (dropWhile (\<lambda>c. c = CHR ''/'') (rev head))
         else head)"

definition posix_join :: "string \<Rightarrow> string \<Rightarrow> string" where
  "posix_join a b =
     (if starts_with ''/'' b then b
      else if a = [] \<or> starts_with ''/'' (rev a) then a @ b
      else a @ ''/'' @ b)"

definition posix_splitext :: "string \<Rightarrow> string \<times> string" where
  "posix_splitext p =
     (let tail = posix_basename p;
          dots = takeWhile (\<lambda>c. c = CHR ''.'') tail;
          rest = dropWhile (\<lambda>c. c = CHR ''.'') tail
      in if CHR ''.'' \<in> set rest
         then (let ext = CHR ''.'' # rev (takeWhile (\<lambda>c. c \<noteq> CHR ''.'') (rev p))
               in (take (length p - length ext) p, ext))
         else (p, []))"

fun split_on :: "char \<Rightarrow> string \<Rightarrow> string \<Rightarrow> string list" where
  "split_on sep cur [] = [rev cur]"
| "split_on sep cur (c # cs) =
     (if c = sep then rev cur # split_on sep [] cs else split_on sep (c # cur) cs)"

fun norm_comps :: "bool \<Rightarrow> string list \<Rightarrow> string list \<Rightarrow> string list" where
  "norm_comps rooted new_comps [] = new_comps"
| "norm_comps rooted new_comps (part # comps) =
     (if part = [] \<or> part = ''.'' then norm_comps rooted new_comps comps
      else if part \<noteq> ''..'' \<or> (\<not> rooted \<and> new_comps = [])
                \<or> (new_comps \<noteq> [] \<and> last new_comps = ''..'')
      then norm_comps rooted (new_comps @ [part]) comps
      else if new_comps \<noteq> [] then norm_comps rooted (butlast new_comps) comps
      else norm_comps rooted new_comps comps)"

definition posix_normpath :: "string \<Rightarrow> string" where
  "posix_normpath p =
     (if p = [] then ''.''
      else
        (let initial_slashes =
               (if starts_with ''/'' p
                then (if starts_with ''//'' p \<and> \<not> starts_with ''///'' p then 2 else 1)
                else (0::nat));
             comps = norm_comps (initial_slashes \<noteq> 0) [] (split_on CHR ''/'' [] p);
             path = replicate initial_slashes CHR ''/'' @ py_join ''/'' comps
         in if path = [] then ''.'' else path))"

definition posix_os :: "string list \<Rightarrow> bool \<Rightarrow> os" where
  "posix_os files writable =
     \<lparr>path_exists = (\<lambda>p. p \<in> set files),
      path_join = posix_join,
      path_dirname = posix_dirname,
      path_basename = posix_basename,
      path_normpath = posix_normpath,
      path_splitext = posix_splitext,
      config_writable = writable,
      start_state = Starting\<rparr>"

section \<open>vhsgui: the window and its process\<close>

datatype exit_status = NormalExit | CrashExit

text \<open>
  The \<open>QProcess\<close> object. \<open>start_calls\<close> lists the calls of \<open>start(program, arguments)\<close>
  with the working directory set at the time; \<open>kill_calls\<close> counts the calls of \<open>kill()\<close>.
  \<open>exit_status\<close> and \<open>exit_code\<close> are those of the last process that finished.
\<close>

record qprocess =
  proc_state :: process_state
  exit_status :: exit_status
  exit_code :: int
  working_directory :: string
  start_calls :: "(string \<times> string list \<times> string) list"
  kill_calls :: nat

text \<open>
  \<open>QProcess.start\<close> only warns when a process is already there. Otherwise the state it
  leaves is the first argument, given by the environment: \<open>Running\<close> where the program is
  started at once, \<open>Starting\<close> where the start is confirmed later by the event loop
  (\<open>process_started\<close>), and \<open>NotRunning\<close> when the program could not be started, in which
  case no \<open>finished\<close> signal follows. \<open>QProcess.kill\<close> requests the kill; the state stays
  \<open>Running\<close> until the exit of the process is delivered by the event loop (the
  \<open>finished\<close> signal).
\<close>

definition qprocess_start ::
  "process_state \<Rightarrow> string \<Rightarrow> string list \<Rightarrow> qprocess \<Rightarrow> qprocess" where
  "qprocess_start started program arguments p =
     p\<lparr>start_calls := start_calls p @ [(program, arguments, working_directory p)],
       proc_state := (if proc_state p = NotRunning then started else proc_state p)\<rparr>"

definition qprocess_started :: "qprocess \<Rightarrow> qprocess" where
  "qprocess_started p =
     p\<lparr>proc_state := (if proc_state p = Starting then Running else proc_state p)\<rparr>"

definition qprocess_kill :: "qprocess \<Rightarrow> qprocess" where
  "qprocess_kill p = p\<lparr>kill_calls := kill_calls p + 1\<rparr>"

datatype box_kind = Critical | Warning | Information

text \<open>
  The window: the attributes of \<open>VHSGui\<close>, the contents of its widgets, the message
  boxes shown so far (kind, title, text) and the contents written to the configuration
  file so far.
\<close>

record vhsgui =
  config :: "(string \<times> json) list"
  current_step :: "string option"
  work_dir :: string
  process :: qprocess
  path_decode :: string
  path_export :: string
  input_file :: string
  output_name :: string
  combo_format :: string
  combo_system :: string
  spin_threads :: int
  combo_freq :: string
  check_recheck :: bool
  btn_run_enabled :: bool
  btn_stop_enabled :: bool
  log_output :: string
  win_width :: int
  win_height :: int
  message_boxes :: "(box_kind \<times> string \<times> string) list"
  config_writes :: "(string \<times> json) list list"

definition message_box :: "box_kind \<Rightarrow> string \<Rightarrow> string \<Rightarrow> vhsgui \<Rightarrow> vhsgui" where
  "message_box kind title text s = s\<lparr>message_boxes := message_boxes s @ [(kind, title, text)]\<rparr>"

text \<open>
  \<open>ConfigManager.save_config\<close>: the record is written when the file can be opened for
  writing; an \<open>IOError\<close> is swallowed.
\<close>

definition save_config :: "os \<Rightarrow> (string \<times> json) list \<Rightarrow> vhsgui \<Rightarrow> vhsgui" where
  "save_config os config_data s =
     (if config_writable os then s\<lparr>config_writes := config_writes s @ [config_data]\<rparr> else s)"

definition closeEvent :: "os \<Rightarrow> vhsgui \<Rightarrow> vhsgui" where
  "closeEvent os s =
     (let s1 = s\<lparr>config := dict_set (config s) ''window_width'' (JInt (win_width s))\<rparr>;
          s2 = s1\<lparr>config := dict_set (config s1) ''window_height'' (JInt (win_height s1))\<rparr>
      in save_config os (config s2) s2)"

definition update_output_name :: "os \<Rightarrow> string \<Rightarrow> vhsgui \<Rightarrow> vhsgui" where
  "update_output_name os path s =
     (let base = fst (path_splitext os (path_basename os path))
      in s\<lparr>output_name := base\<rparr>)"

datatype exe_field = DecodeExe | ExportExe

text \<open>\<open>browse_exe\<close>; \<open>fname\<close> is what the file dialog returned (empty when cancelled).\<close>

definition browse_exe :: "os \<Rightarrow> exe_field \<Rightarrow> string \<Rightarrow> vhsgui \<Rightarrow> vhsgui" where
  "browse_exe os line_edit fname s =
     (if fname \<noteq> []
      then (case line_edit of
              DecodeExe \<Rightarrow> s\<lparr>path_decode := path_normpath os fname\<rparr>
            | ExportExe \<Rightarrow> s\<lparr>path_export := path_normpath os fname\<rparr>)
      else s)"

text \<open>
  \<open>browse_input_file\<close>. The start directory is computed from the remembered input file;
  a remembered value that is true in a condition without being a string makes
  \<open>os.path\<close> raise \<open>TypeError\<close>.
\<close>

definition browse_start_dir :: "os \<Rightarrow> vhsgui \<Rightarrow> py_error + string" where
  "browse_start_dir os s =
     (let last_file = dict_get (config s) ''last_input_file'' (JString '''')
      in case last_file of
           JString f \<Rightarrow>
             (if f \<noteq> [] \<and> path_exists os f then Inr (path_dirname os f)
              else if f \<noteq> [] then
                (let possible_dir = path_dirname os f
                 in if path_exists os possible_dir then Inr possible_dir else Inr '''')
              else Inr '''')
         | other \<Rightarrow> (if py_truthy other then Inl TypeError else Inr ''''))"

definition browse_input_file :: "os \<Rightarrow> string \<Rightarrow> vhsgui \<Rightarrow> py_error + vhsgui" where
  "browse_input_file os fname s =
     (case browse_start_dir os s of
        Inl e \<Rightarrow> Inl e
      | Inr start_dir \<Rightarrow>
          (if fname \<noteq> []
           then (let norm_path = path_normpath os fname
                 in Inr (update_output_name os norm_path (s\<lparr>input_file := norm_path\<rparr>)))
           else Inr s))"

text \<open>
  \<open>append_log_text\<close> replaces each carriage return by a newline and inserts the text at
  the end of the log.
\<close>

definition safe_text :: "string \<Rightarrow> string" where
  "safe_text text = map (\<lambda>c. if c = CHR 0x0D then CHR 0x0A else c) text"

definition append_log_text :: "string \<Rightarrow> vhsgui \<Rightarrow> vhsgui" where
  "append_log_text text s = s\<lparr>log_output := log_output s @ safe_text text\<rparr>"

definition decode_args :: "vhsgui \<Rightarrow> string \<Rightarrow> string \<Rightarrow> string list" where
  "decode_args s input_filename output_arg =
     [''vhs'']
     @ [''--tape_format'', combo_format s]
     @ [''--system'', combo_system s]
     @ [''--threads'', show_int (spin_threads s)]
     @ (if is_substring ''28'' (combo_freq s) then [''--frequency'', ''28'']
        else if is_substring ''40'' (combo_freq s) then [''--frequency'', ''40'']
        else [])
     @ (if check_recheck s then [''--recheck_phase''] else [])
     @ [input_filename]
     @ [output_arg]"

definition start_process :: "os \<Rightarrow> vhsgui \<Rightarrow> vhsgui" where
  "start_process os s =
     (let decode_exe = strip (path_decode s);
          export_exe = strip (path_export s);
          input_full_path = strip (input_file s);
          output_base_name = strip (output_name s)
      in if \<not> path_exists os decode_exe
         then message_box Critical ''Error''
                (''Decode executable not found:\<newline>'' @ decode_exe) s
         else if \<not> path_exists os export_exe
         then message_box Critical ''Error''
                (''Export executable not found:\<newline>'' @ export_exe) s
         else if \<not> path_exists os input_full_path
         then message_box Critical ''Error''
                (''Input file not found:\<newline>'' @ input_full_path) s
         else if output_base_name = []
         then message_box Warning ''Error'' ''Please specify an output name.'' s
         else
           (let s1 = s\<lparr>config := dict_set (config s) ''decode_path'' (JString decode_exe)\<rparr>;
                s2 = s1\<lparr>config := dict_set (config s1) ''tbc_export_path'' (JString export_exe)\<rparr>;
                s3 = s2\<lparr>config :=
                         dict_set (config s2) ''last_input_file'' (JString input_full_path)\<rparr>;
                s4 = save_config os (config s3) s3;
                s5 = s4\<lparr>work_dir := path_dirname os input_full_path\<rparr>;
                input_filename = path_basename os input_full_path;
                output_arg = path_join os (work_dir s5) output_base_name;
                s6 = s5\<lparr>process := (process s5)\<lparr>working_directory := work_dir s5\<rparr>\<rparr>;
                s7 = s6\<lparr>btn_run_enabled := False, btn_stop_enabled := True, log_output := []\<rparr>;
                s8 = s7\<lparr>current_step := Some ''decode''\<rparr>;
                args = decode_args s8 input_filename output_arg;
                s9 = append_log_text
                       (''--- STARTING DECODE ---\<newline>Command: '' @ path_basename os decode_exe
                        @ '' '' @ py_join '' '' args @ ''\<newline>\<newline>'') s8
            in s9\<lparr>process := qprocess_start (start_state os) decode_exe args (process s9)\<rparr>))"

definition kill_process :: "vhsgui \<Rightarrow> vhsgui" where
  "kill_process s =
     (if proc_state (process s) = Running
      then append_log_text ''\<newline>\<newline>!!! PROCESS STOPPED BY USER !!!\<newline>''
             (s\<lparr>process := qprocess_kill (process s)\<rparr>)
      else s)"

text \<open>\<open>handle_output\<close>; \<open>text\<close> is the decoded output read from the process.\<close>

definition handle_output :: "string \<Rightarrow> vhsgui \<Rightarrow> vhsgui" where
  "handle_output text s = append_log_text text s"

definition start_export :: "os \<Rightarrow> vhsgui \<Rightarrow> vhsgui" where
  "start_export os s =
     (let s1 = s\<lparr>current_step := Some ''export''\<rparr>;
          output_base_name = strip (output_name s1);
          export_exe = strip (path_export s1);
          tbc_filename = output_base_name @ ''.tbc'';
          export_filename = output_base_name @ ''.tbcexported.mkv'';
          full_tbc_path = path_join os (work_dir s1) tbc_filename
      in if \<not> path_exists os full_tbc_path
         then (append_log_text
                 (''\<newline>Error: Could not find generated file: '' @ tbc_filename @ ''\<newline>'') s1)
              \<lparr>btn_run_enabled := True\<rparr>
         else
           (let s2 = s1\<lparr>process := (process s1)\<lparr>working_directory := work_dir s1\<rparr>\<rparr>;
                args = [tbc_filename, export_filename];
                s3 = s2\<lparr>btn_stop_enabled := True\<rparr>;
                s4 = append_log_text
                       (''Command: '' @ path_basename os export_exe @ '' '' @ [CHR 0x22]
                        @ tbc_filename @ [CHR 0x22] @ '' '' @ [CHR 0x22] @ export_filename
                        @ [CHR 0x22] @ ''\<newline>\<newline>'') s3
            in s4\<lparr>process := qprocess_start (start_state os) export_exe args (process s4)\<rparr>))"

text \<open>
  \<open>process_finished\<close>, the slot of the \<open>finished\<close> signal. \<open>self.current_step.upper()\<close>
  raises \<open>AttributeError\<close> when the step is \<open>None\<close>.
\<close>

definition process_finished :: "os \<Rightarrow> vhsgui \<Rightarrow> py_error + vhsgui" where
  "process_finished os s =
     (let s1 = s\<lparr>btn_stop_enabled := False\<rparr>
      in if exit_status (process s1) = CrashExit
         then Inr (s1\<lparr>btn_run_enabled := True\<rparr>)
         else if exit_code (process s1) \<noteq> 0
         then (case current_step s1 of
                 None \<Rightarrow> Inl AttributeError
               | Some stage \<Rightarrow>
                   Inr ((append_log_text
                           (''\<newline>!!! '' @ py_upper stage @ '' FAILED (Exit Code ''
                            @ show_int (exit_code (process s1)) @ '') !!!\<newline>'') s1)
                        \<lparr>btn_run_enabled := True\<rparr>))
         else if current_step s1 = Some ''decode''
         then Inr (start_export os
                     (append_log_text
                        ''\<newline>\<newline>--- DECODE COMPLETE. STARTING EXPORT ---\<newline>'' s1))
         else if current_step s1 = Some ''export''
         then
           (let output_base_name = strip (output_name s1);
                expected_mkv =
                  path_join os (work_dir s1) (output_base_name @ ''.tbcexported.mkv'');
                s2 = (if path_exists os expected_mkv
                      then message_box Information ''Success'' ''Workflow Finished!''
                             (append_log_text
                                ''\<newline>\<newline>--- ALL TASKS COMPLETED SUCCESSFULLY ---\<newline>'' s1)
                      else message_box Warning ''Export Failed''
                             ''The process finished, but the output .mkv file is missing.''
                             (append_log_text
                                (''\<newline>\<newline>!!! ERROR: Output file not found !!!\<newline>Expected: ''
                                 @ expected_mkv @ ''\<newline>Check log for errors above.'') s1))
            in Inr (s2\<lparr>btn_run_enabled := True, current_step := None\<rparr>))
         else Inr s1)"

text \<open>
  The events of a session after the window is built: the user's clicks and edits, the
  confirmed start, the output and the exit of the process, and closing the window. No
  slot is connected to the start of the process: Qt only moves the state from
  \<open>Starting\<close> to \<open>Running\<close>. When the process exits, Qt records the exit status and code
  and sets the state to \<open>NotRunning\<close> before the \<open>finished\<close> signal reaches
  \<open>process_finished\<close>.
\<close>

definition process_started :: "vhsgui \<Rightarrow> vhsgui" where
  "process_started s = s\<lparr>process := qprocess_started (process s)\<rparr>"

datatype event =
  RunClicked
  | StopClicked
  | ProcessStarted
  | ReadyRead string
  | Finished exit_status int
  | BrowseExe exe_field string
  | BrowseInput string
  | EditDecodePath string
  | EditExportPath string
  | EditInputFile string
  | EditOutputName string
  | SelectFormat string
  | SelectSystem string
  | SelectFrequency string
  | SetThreads int
  | ToggleRecheck bool
  | Resize int int
  | CloseWindow

fun step :: "os \<Rightarrow> event \<Rightarrow> vhsgui \<Rightarrow> py_error + vhsgui" where
  "step os RunClicked s = Inr (start_process os s)"
| "step os StopClicked s = Inr (kill_process s)"
| "step os ProcessStarted s = Inr (process_started s)"
| "step os (ReadyRead text) s = Inr (handle_output text s)"
| "step os (Finished status code) s =
     process_finished os
       (s\<lparr>process := (process s)\<lparr>proc_state := NotRunning, exit_status := status,
                                  exit_code := code\<rparr>\<rparr>)"
| "step os (BrowseExe line_edit fname) s = Inr (browse_exe os line_edit fname s)"
| "step os (BrowseInput fname) s = browse_input_file os fname s"
| "step os (EditDecodePath text) s = Inr (s\<lparr>path_decode := text\<rparr>)"
| "step os (EditExportPath text) s = Inr (s\<lparr>path_export := text\<rparr>)"
| "step os (EditInputFile text) s = Inr (s\<lparr>input_file := text\<rparr>)"
| "step os (EditOutputName text) s = Inr (s\<lparr>output_name := text\<rparr>)"
| "step os (SelectFormat text) s = Inr (s\<lparr>combo_format := text\<rparr>)"
| "step os (SelectSystem text) s = Inr (s\<lparr>combo_system := text\<rparr>)"
| "step os (SelectFrequency text) s = Inr (s\<lparr>combo_freq := text\<rparr>)"
| "step os (SetThreads n) s = Inr (s\<lparr>spin_threads := n\<rparr>)"
| "step os (ToggleRecheck b) s = Inr (s\<lparr>check_recheck := b\<rparr>)"
| "step os (Resize w h) s = Inr (s\<lparr>win_width := w, win_height := h\<rparr>)"
| "step os CloseWindow s = Inr (closeEvent os s)"

text \<open>A session: the events in order, each with the environment it meets.\<close>

fun run_events :: "(os \<times> event) list \<Rightarrow> vhsgui \<Rightarrow> py_error + vhsgui" where
  "run_events [] s = Inr s"
| "run_events ((os, ev) # rest) s =
     (case step os ev s of Inl e \<Rightarrow> Inl e | Inr s' \<Rightarrow> run_events rest s')"

section \<open>vhsgui: a concrete session\<close>

text \<open>
  A window as \<open>__init__\<close> leaves it with the default configuration, the two tools and
  a capture selected, over a file system that holds the three files.
\<close>

definition example_files :: "string list" where
  "example_files =
     [''/opt/vhs/decode.exe'', ''/opt/vhs/tbc-video-export.exe'', ''/cap/tape1.u8'']"

definition example_os :: os where
  "example_os = posix_os example_files True"

definition example_gui :: vhsgui where
  "example_gui =
     \<lparr>config = defaults, current_step = None, work_dir = '''',
      process = \<lparr>proc_state = NotRunning, exit_status = NormalExit, exit_code = 0,
                 working_directory = '''', start_calls = [], kill_calls = 0\<rparr>,
      path_decode = ''/opt/vhs/decode.exe'',
      path_export = ''/opt/vhs/tbc-video-export.exe'',
      input_file = ''/cap/tape1.u8'', output_name = ''tape1'',
      combo_format = ''vhs'', combo_system = ''pal'', spin_threads = 8,
      combo_freq = ''Auto'', check_recheck = True,
      btn_run_enabled = True, btn_stop_enabled = False, log_output = [],
      win_width = 900, win_height = 750, message_boxes = [], config_writes = []\<rparr>"

text \<open>The same window after the run button was pressed: the decode stage is running.\<close>

definition example_decoding :: vhsgui where
  "example_decoding = process_started (start_process example_os example_gui)"

text \<open>
  The decode stage has written \<open>tape1.tbc\<close> and exited with code 0: the export stage is
  running. Later the export stage has written its file.
\<close>

definition example_tbc_os :: os where
  "example_tbc_os = posix_os (''/cap/tape1.tbc'' # example_files) True"

definition example_exporting :: vhsgui where
  "example_exporting =
     process_started (projr (step example_tbc_os (Finished NormalExit 0) example_decoding))"

definition example_mkv_os :: os where
  "example_mkv_os =
     posix_os (''/cap/tape1.tbcexported.mkv'' # ''/cap/tape1.tbc'' # example_files) True"

text \<open>
  A run from the first window in which the output name is edited while the export stage
  is running.
\<close>

definition example_renamed_run :: "(os \<times> event) list" where
  "example_renamed_run =
     [(example_os, RunClicked),
      (example_os, ProcessStarted),
      (example_tbc_os, Finished NormalExit 0),
      (example_tbc_os, ProcessStarted),
      (example_mkv_os, EditOutputName ''tape2''),
      (example_mkv_os, Finished NormalExit 0)]"

section \<open>cxcheck: device detection\<close>

definition SYNC_THRESHOLD :: int where
  "SYNC_THRESHOLD = 60"

text \<open>\<open>range(n)\<close> for a Python integer.\<close>

definition py_range :: "int \<Rightarrow> int list" where
  "py_range n = [0..n - 1]"

text \<open>
  The device path (two backslashes, a dot, a backslash, \<open>cxadc\<close> and the index) and the
  probe command of \<open>detect_cxadc_devices\<close>.
\<close>

definition device_path :: "int \<Rightarrow> string" where
  "device_path dev = [CHR 0x5C, CHR 0x5C, CHR ''.'', CHR 0x5C] @ ''cxadc'' @ show_int dev"

definition test_cmd :: "int \<Rightarrow> string list" where
  "test_cmd dev =
     [''ffmpeg'', ''-hide_banner'', ''-f'', ''rawvideo'', ''-pixel_format'', ''gray8'',
      ''-video_size'', ''16x16'', ''-i'', device_path dev, ''-t'', ''0.1'',
      ''-f'', ''null'', ''-'']"

text \<open>
  One probe: \<open>subprocess.Popen(test_cmd, ...)\<close> and \<open>proc.stderr.read()\<close> either raise
  (swallowed by the bare \<open>except\<close>) or give the text of the error channel.
\<close>

datatype probe_result = ProbeRaised | ProbeStderr string

fun detect_loop :: "(string list \<Rightarrow> probe_result) \<Rightarrow> int list \<Rightarrow> int list \<Rightarrow> int list" where
  "detect_loop popen [] detected = detected"
| "detect_loop popen (dev # devs) detected =
     (case popen (test_cmd dev) of
        ProbeRaised \<Rightarrow> detect_loop popen devs detected
      | ProbeStderr err \<Rightarrow>
          (let stderr = py_lower err in
           if \<not> is_substring ''no such file'' stderr
           then detect_loop popen devs (detected @ [dev])
           else detect_loop popen devs detected))"

definition detect_cxadc_devices :: "(string list \<Rightarrow> probe_result) \<Rightarrow> int \<Rightarrow> int list" where
  "detect_cxadc_devices popen max_devices = detect_loop popen (py_range max_devices) []"

section \<open>cxcheck: the monitor worker\<close>

record worker =
  device_id :: int
  is_running :: bool
  wprocess :: "nat option"

text \<open>
  The pattern \<open>lavfi\.signalstats\.YMIN=([0-9\.]+)\<close>: \<open>re_search\<close> gives group 1 of the
  leftmost match, the longest run of digits and dots after the literal text.
\<close>

definition is_digit :: "char \<Rightarrow> bool" where
  "is_digit c = (c \<in> set ''0123456789'')"

definition group_char :: "char \<Rightarrow> bool" where
  "group_char c = (is_digit c \<or> c = CHR ''.'')"

definition pattern_literal :: string where
  "pattern_literal = ''lavfi.signalstats.YMIN=''"

definition match_at :: "string \<Rightarrow> string option" where
  "match_at s =
     (if starts_with pattern_literal s
      then (let g = takeWhile group_char (drop (length pattern_literal) s)
            in if g = [] then None else Some g)
      else None)"

fun re_search :: "string \<Rightarrow> string option" where
  "re_search [] = None"
| "re_search (c # cs) =
     (case match_at (c # cs) of Some g \<Rightarrow> Some g | None \<Rightarrow> re_search cs)"

text \<open>
  \<open>float(g)\<close> for a string \<open>g\<close> of digits and dots, which is all group 1 can be: it
  raises \<open>ValueError\<close> unless there is at most one dot and at least one digit, and
  otherwise returns the binary64 value nearest to the decimal number. The rounding of a
  decimal to binary64 belongs to the Python runtime and is the parameter \<open>rnd\<close>.
\<close>

definition digits_value :: "string \<Rightarrow> nat" where
  "digits_value s = foldl (\<lambda>a c. 10 * a + (of_char c - 48)) 0 s"

definition py_float :: "(rat \<Rightarrow> pyfloat) \<Rightarrow> string \<Rightarrow> py_error + pyfloat" where
  "py_float rnd g =
     (let ip = takeWhile is_digit g; rest = dropWhile is_digit g
      in case rest of
           [] \<Rightarrow> if ip = [] then Inl ValueError else Inr (rnd (of_nat (digits_value ip)))
         | c # fp \<Rightarrow>
             if c \<noteq> CHR ''.'' \<or> \<not> list_all is_digit fp \<or> (ip = [] \<and> fp = [])
             then Inl ValueError
             else Inr (rnd (of_nat (digits_value (ip @ fp)) / 10 ^ length fp)))"

text \<open>\<open>ymin < SYNC_THRESHOLD\<close>: a float compared with an integer.\<close>

fun float_lt_int :: "pyfloat \<Rightarrow> int \<Rightarrow> bool" where
  "float_lt_int (Finite q) n = (q < of_int n)"
| "float_lt_int PosInf n = False"
| "float_lt_int NegInf n = True"
| "float_lt_int NaN n = False"

text \<open>
  The body of the loop \<open>for line in self.process.stderr\<close> of \<open>DeviceMonitorWorker.run\<close>
  for one line: leave the loop, go on to the next line, or emit
  \<open>stats_update(device_id, ymin, has_signal)\<close>.
\<close>

datatype line_outcome = Break | Continue | Emit int pyfloat bool

definition monitor_line :: "(rat \<Rightarrow> pyfloat) \<Rightarrow> worker \<Rightarrow> string \<Rightarrow> line_outcome" where
  "monitor_line rnd w line =
     (if \<not> is_running w then Break
      else if \<not> is_substring ''lavfi.signalstats.YMIN'' line then Continue
      else
        (case re_search line of
           None \<Rightarrow> Continue
         | Some g \<Rightarrow>
             (case py_float rnd g of
                Inl e \<Rightarrow> Continue
              | Inr ymin \<Rightarrow>
                  (let has_signal = float_lt_int ymin SYNC_THRESHOLD
                   in Emit (device_id w) ymin has_signal))))"

text \<open>
  The samples the loop emits for the lines of the error channel, in order. Each line
  comes with the value of \<open>is_running\<close> when the loop reaches it: the flag is cleared
  by \<open>stop\<close> from the window's thread.
\<close>

fun monitor_lines ::
  "(rat \<Rightarrow> pyfloat) \<Rightarrow> worker \<Rightarrow> (bool \<times> string) list \<Rightarrow> (int \<times> pyfloat \<times> bool) list" where
  "monitor_lines rnd w [] = []"
| "monitor_lines rnd w ((running, line) # lines) =
     (case monitor_line rnd (w\<lparr>is_running := running\<rparr>) line of
        Break \<Rightarrow> []
      | Continue \<Rightarrow> monitor_lines rnd w lines
      | Emit d y h \<Rightarrow> (d, y, h) # monitor_lines rnd w lines)"

text \<open>
  \<open>stop_process\<close>. The calls made on the process handle are returned with the new worker
  state. Whether \<open>terminate()\<close>, \<open>wait(timeout=1)\<close> and \<open>kill()\<close> raise is decided by
  the operating system; every exception is swallowed.
\<close>

datatype popen_call = Terminate | Wait | Kill

record popen_behaviour =
  terminate_raises :: bool
  wait_raises :: bool
  kill_raises :: bool

definition stop_process :: "popen_behaviour \<Rightarrow> worker \<Rightarrow> popen_call list \<times> worker" where
  "stop_process os w =
     (let w1 = w\<lparr>is_running := False\<rparr>
      in case wprocess w1 of
           None \<Rightarrow> ([], w1)
         | Some h \<Rightarrow>
             ((if terminate_raises os then [Terminate, Kill]
               else if wait_raises os then [Terminate, Wait, Kill]
               else [Terminate, Wait]),
              w1\<lparr>wprocess := None\<rparr>))"

text \<open>
  \<open>stop\<close> clears the flag and stops the process (the thread's \<open>quit\<close> and \<open>wait\<close>
  touch neither the flag nor the handle).
\<close>

definition stop :: "popen_behaviour \<Rightarrow> worker \<Rightarrow> popen_call list \<times> worker" where
  "stop os w = stop_process os (w\<lparr>is_running := False\<rparr>)"

text \<open>
  \<open>run\<close>: \<open>spawned\<close> is \<open>None\<close> when \<open>subprocess.Popen\<close> raises, and otherwise the new
  handle with the lines of its error channel. The result is the samples emitted, the
  calls made on the handle by the final \<open>stop_process\<close>, and the worker afterwards.
\<close>

definition run ::
  "(rat \<Rightarrow> pyfloat) \<Rightarrow> popen_behaviour \<Rightarrow> (nat \<times> (bool \<times> string) list) option \<Rightarrow> worker
   \<Rightarrow> (int \<times> pyfloat \<times> bool) list \<times> popen_call list \<times> worker" where
  "run rnd os spawned w =
     (case spawned of
        None \<Rightarrow> ([], stop_process os w)
      | Some (h, lines) \<Rightarrow>
          (let w1 = w\<lparr>wprocess := Some h\<rparr>
           in (monitor_lines rnd w1 lines, stop_process os w1)))"

section \<open>Properties of the configuration manager\<close>

lemma map_of_dict_set: "map_of (dict_set d k v) = (map_of d)(k \<mapsto> v)"
  by (induction d k v rule: dict_set.induct) auto

lemma merge_defaults_object:
  "\<exists>r. merge_defaults ds (JObject kvs) = Inr (JObject r) \<and>
       (\<forall>k. map_of r k = (case map_of kvs k of Some v \<Rightarrow> Some v | None \<Rightarrow> map_of ds k))"
proof (induction ds arbitrary: kvs)
  case Nil
  show ?case by (simp split: option.splits)
next
  case (Cons d ds)
  obtain k v where d: "d = (k, v)" by (cases d)
  show ?case
  proof (cases "k \<in> set (map fst kvs)")
    case True
    then obtain w where w: "map_of kvs k = Some w"
      by (metis map_of_eq_None_iff not_Some_eq set_map)
    from Cons.IH [of kvs] obtain r where
      r: "merge_defaults ds (JObject kvs) = Inr (JObject r)"
         "\<forall>k. map_of r k = (case map_of kvs k of Some v \<Rightarrow> Some v | None \<Rightarrow> map_of ds k)"
      by blast
    from True r w show ?thesis
      by (auto simp: d split: option.splits)
  next
    case False
    then have n: "map_of kvs k = None"
      by (simp add: map_of_eq_None_iff)
    from Cons.IH [of "dict_set kvs k v"] obtain r where
      r: "merge_defaults ds (JObject (dict_set kvs k v)) = Inr (JObject r)"
         "\<forall>k'. map_of r k' =
            (case map_of (dict_set kvs k v) k' of Some v \<Rightarrow> Some v | None \<Rightarrow> map_of ds k')"
      by blast
    from False r n show ?thesis
      by (auto simp: d map_of_dict_set split: option.splits)
  qed
qed

lemma merge_defaults_keys:
  assumes "merge_defaults ds (JObject kvs) = Inr (JObject r)"
  shows "set (map fst r) = set (map fst kvs) \<union> set (map fst ds)"
proof -
  from merge_defaults_object [of ds kvs] assms
  have m: "\<And>k. map_of r k = (case map_of kvs k of Some v \<Rightarrow> Some v | None \<Rightarrow> map_of ds k)"
    by auto
  have "dom (map_of r) = dom (map_of kvs) \<union> dom (map_of ds)"
    by (auto simp: dom_def m split: option.splits)
  then show ?thesis
    by (simp add: dom_map_of_conv_image_fst)
qed

text \<open>
  C4, as the code has it. Loading when the configuration file is missing returns exactly
  the five default keys with their default values. Loading a file that holds a JSON
  object whose keys are a subset of the recognized keys returns a record with exactly the
  five recognized keys, each with its on-disk value when the file has it and its default
  otherwise. When opening or reading the file raises \<open>IOError\<close>, or its text is not valid
  JSON (\<open>JSONDecodeError\<close>), the all-defaults record is returned and nothing is raised to
  the caller.
\<close>

theorem load_config_defaults_merge:
  "load_config False rd =
     Inr (JObject [(''decode_path'', JString ''''), (''tbc_export_path'', JString ''''),
                   (''last_input_file'', JString ''''), (''window_width'', JInt 900),
                   (''window_height'', JInt 750)])
   \<and> (set (map fst kvs) \<subseteq> set (map fst defaults) \<longrightarrow>
        (\<exists>r. load_config True (Loaded (JObject kvs)) = Inr (JObject r) \<and>
             set (map fst r) = set (map fst defaults) \<and>
             (\<forall>k. map_of r k =
                (case map_of kvs k of Some v \<Rightarrow> Some v | None \<Rightarrow> map_of defaults k))))
   \<and> (e = JSONDecodeError \<or> e = IOError \<longrightarrow>
        load_config True (Raises e) = Inr (JObject defaults) \<and> length defaults = 5)"
proof (intro conjI impI)
  show "load_config False rd =
     Inr (JObject [(''decode_path'', JString ''''), (''tbc_export_path'', JString ''''),
                   (''last_input_file'', JString ''''), (''window_width'', JInt 900),
                   (''window_height'', JInt 750)])"
    by (simp add: load_config_def defaults_def)
next
  assume sub: "set (map fst kvs) \<subseteq> set (map fst defaults)"
  from merge_defaults_object [of defaults kvs] obtain r where
    r: "merge_defaults defaults (JObject kvs) = Inr (JObject r)"
       "\<forall>k. map_of r k = (case map_of kvs k of Some v \<Rightarrow> Some v | None \<Rightarrow> map_of defaults k)"
    by blast
  from merge_defaults_keys [OF r(1)] sub
  have keys: "set (map fst r) = set (map fst defaults)"
    by auto
  have "load_config True (Loaded (JObject kvs)) = Inr (JObject r)"
    by (simp add: load_config_def r(1))
  with keys r(2)
  show "\<exists>r. load_config True (Loaded (JObject kvs)) = Inr (JObject r) \<and>
             set (map fst r) = set (map fst defaults) \<and>
             (\<forall>k. map_of r k =
                (case map_of kvs k of Some v \<Rightarrow> Some v | None \<Rightarrow> map_of defaults k))"
    by blast
next
  assume "e = JSONDecodeError \<or> e = IOError"
  then show "load_config True (Raises e) = Inr (JObject defaults)"
    by (auto simp: load_config_def)
next
  show "length defaults = 5"
    by (simp add: defaults_def)
qed

theorem load_config_defaults_merge_witness:
  "load_config False (Raises IOError) = Inr (JObject defaults)
   \<and> set (map fst [(''window_width'', JInt 1200)]) \<subseteq> set (map fst defaults)
   \<and> (\<exists>r. load_config True (Loaded (JObject [(''window_width'', JInt 1200)])) = Inr (JObject r) \<and>
          map_of r ''window_width'' = Some (JInt 1200) \<and>
          map_of r ''window_height'' = Some (JInt 750) \<and>
          map_of r ''decode_path'' = Some (JString ''''))
   \<and> load_config True (Raises JSONDecodeError) = Inr (JObject defaults)"
proof -
  note inst = load_config_defaults_merge
    [of "Raises IOError" "[(''window_width'', JInt 1200)]" JSONDecodeError]
  have sub: "set (map fst [(''window_width'', JInt 1200)]) \<subseteq> set (map fst defaults)"
    by (simp add: defaults_def)
  from inst sub obtain r where
    r: "load_config True (Loaded (JObject [(''window_width'', JInt 1200)])) = Inr (JObject r)"
       "\<forall>k. map_of r k =
          (case map_of [(''window_width'', JInt 1200)] k of
             Some v \<Rightarrow> Some v | None \<Rightarrow> map_of defaults k)"
    by blast
  have a: "map_of r ''window_width'' = Some (JInt 1200)"
    by (simp add: r(2))
  have b: "map_of r ''window_height'' = Some (JInt 750)"
    by (simp add: r(2) defaults_def)
  have c: "map_of r ''decode_path'' = Some (JString '''')"
    by (simp add: r(2) defaults_def)
  have d: "load_config False (Raises IOError) = Inr (JObject defaults)"
    using inst by (simp add: defaults_def)
  have e: "load_config True (Raises JSONDecodeError) = Inr (JObject defaults)"
    using inst by simp
  from sub r(1) a b c d e show ?thesis
    by blast
qed

text \<open>
  A file whose bytes cannot be decoded as text, and a file that holds the JSON value
  \<open>[]\<close>: the file is there, \<open>load_config\<close> returns no record and the exception
  reaches the caller.
\<close>

theorem load_config_raises_other_failures:
  "load_config True (Raises UnicodeDecodeError) = Inl UnicodeDecodeError
   \<and> load_config True (Loaded (JArray [])) = Inl TypeError"
  by (simp add: load_config_def defaults_def)

section \<open>Properties of device detection\<close>

lemma detect_loop_filter:
  "detect_loop popen devs detected =
     detected @ filter (\<lambda>dev. case popen (test_cmd dev) of
                               ProbeRaised \<Rightarrow> False
                             | ProbeStderr err \<Rightarrow> \<not> is_substring ''no such file'' (py_lower err)) devs"
  by (induction devs arbitrary: detected) (auto split: probe_result.splits)

text \<open>
  C5. For every \<open>max_devices = N\<close> and every assignment \<open>f\<close> of error-channel texts to the
  candidate indices \<open>0..N-1\<close> (the probe of index \<open>i\<close> yields the text \<open>f i\<close>), the prober
  returns the ascending list of exactly those indices whose text, lower-cased as the code
  does, does not contain the marker \<open>no such file\<close>: such an index is present, every
  index whose text contains the marker is absent.
\<close>

theorem detect_cxadc_devices_present:
  assumes "\<forall>i. 0 \<le> i \<and> i < N \<longrightarrow> popen (test_cmd i) = ProbeStderr (f i)"
  shows "detect_cxadc_devices popen N =
           filter (\<lambda>i. \<not> is_substring ''no such file'' (py_lower (f i))) [0..N - 1]
         \<and> sorted (detect_cxadc_devices popen N)
         \<and> distinct (detect_cxadc_devices popen N)
         \<and> set (detect_cxadc_devices popen N) =
             {i. 0 \<le> i \<and> i < N \<and> \<not> is_substring ''no such file'' (py_lower (f i))}"
proof -
  have eq: "detect_cxadc_devices popen N =
           filter (\<lambda>i. \<not> is_substring ''no such file'' (py_lower (f i))) [0..N - 1]"
    unfolding detect_cxadc_devices_def py_range_def detect_loop_filter
    using assms by (auto intro!: filter_cong)
  show ?thesis
    unfolding eq by (auto simp: sorted_filter [where f = id, simplified])
qed

theorem detect_cxadc_devices_present_witness:
  "detect_cxadc_devices
     (\<lambda>cmd. ProbeStderr (if cmd = test_cmd 1
                          then ''Error opening input: No such file or directory''
                          else ''Input #0, rawvideo, from cxadc'')) 3 = [0, 2]"
proof -
  let ?popen = "\<lambda>cmd. ProbeStderr (if cmd = test_cmd 1
                          then ''Error opening input: No such file or directory''
                          else ''Input #0, rawvideo, from cxadc'')"
  let ?f = "\<lambda>i::int. if i = 1 then ''Error opening input: No such file or directory''
                      else ''Input #0, rawvideo, from cxadc''"
  have h: "\<forall>i. 0 \<le> i \<and> i < 3 \<longrightarrow> ?popen (test_cmd i) = ProbeStderr (?f i)"
  proof (intro allI impI)
    fix i :: int
    assume "0 \<le> i \<and> i < 3"
    then consider "i = 0" | "i = 1" | "i = 2"
      by force
    then show "?popen (test_cmd i) = ProbeStderr (?f i)"
      by cases (simp_all add: test_cmd_def device_path_def show_int_def show_nat.simps)
  qed
  have ev: "filter (\<lambda>i. \<not> is_substring ''no such file'' (py_lower (?f i))) [0..3 - 1] = [0, 2]"
    by code_simp
  from detect_cxadc_devices_present [OF h] ev show ?thesis
    by simp
qed

section \<open>Properties of the line monitor\<close>

text \<open>
  C3. Whenever the line monitor extracts a floating-point metric \<open>v\<close> from a line and
  emits a sample, the sample carries the device id and \<open>v\<close>, the value Python's float
  conversion gives for the digits matched by the pattern, and it is classified as
  signal present if and only if \<open>v\<close> is strictly less than 60; the value 60 itself is
  classified as no signal.
\<close>

theorem monitor_line_threshold:
  assumes "monitor_line rnd w line = Emit d v has_signal"
  shows "d = device_id w
         \<and> (\<exists>g. re_search line = Some g \<and> py_float rnd g = Inr v)
         \<and> (has_signal \<longleftrightarrow> float_lt_int v 60)
         \<and> (\<forall>q. v = Finite q \<longrightarrow> (has_signal \<longleftrightarrow> q < 60))
         \<and> (v = Finite 60 \<longrightarrow> \<not> has_signal)"
  using assms
  by (auto simp: monitor_line_def SYNC_THRESHOLD_def Let_def
           split: if_splits option.splits sum.splits)

theorem monitor_line_threshold_witness:
  "monitor_line Finite \<lparr>device_id = 0, is_running = True, wprocess = Some 1\<rparr>
     ''lavfi.signalstats.YMIN=60'' = Emit 0 (Finite 60) False
   \<and> monitor_line Finite \<lparr>device_id = 0, is_running = True, wprocess = Some 1\<rparr>
     ''lavfi.signalstats.YMIN=59.5'' = Emit 0 (Finite (119 / 2)) True
   \<and> \<not> float_lt_int (Finite 60) 60
   \<and> float_lt_int (Finite (119 / 2)) 60"
proof -
  have a: "monitor_line Finite \<lparr>device_id = 0, is_running = True, wprocess = Some 1\<rparr>
     ''lavfi.signalstats.YMIN=60'' = Emit 0 (Finite 60) False"
    by code_simp
  have b: "monitor_line Finite \<lparr>device_id = 0, is_running = True, wprocess = Some 1\<rparr>
     ''lavfi.signalstats.YMIN=59.5'' = Emit 0 (Finite (119 / 2)) True"
    by code_simp
  from monitor_line_threshold [OF a] monitor_line_threshold [OF b] a b show ?thesis
    by simp
qed

section \<open>Properties of the workflow\<close>

text \<open>Only a run request and the exit of a process can show a message box.\<close>

lemma step_message_boxes_cases:
  assumes "step os ev s = Inr s'"
    and "message_boxes s' \<noteq> message_boxes s"
  shows "ev = RunClicked \<or> (\<exists>status code. ev = Finished status code)"
  using assms
  by (cases ev)
     (auto simp: process_started_def qprocess_started_def kill_process_def
                 handle_output_def append_log_text_def browse_exe_def
                 browse_input_file_def update_output_name_def closeEvent_def save_config_def
                 Let_def
           split: if_splits exe_field.splits sum.splits)

text \<open>
  C1, as the code has it. In every step of a session, the success report (the box
  "Workflow Finished!") is shown if and only if the step is the exit of the export stage
  with a normal exit and code 0 and the file \<open><name>.tbcexported.mkv\<close> exists in the
  working directory at that moment, where \<open><name>\<close> is the output-name field as the
  finish handler reads and strips it; the handler then also logs that all tasks
  completed. When the export stage exits normally with code 0 and that file is absent,
  the workflow reports failure: the box "Export Failed" is shown and the error is logged.
  When the field still reads the name the export stage was started with, the file
  looked for is the one named in the arguments of the export stage, in its working
  directory.
\<close>

theorem success_iff_export_ok_and_artifact:
  "(\<forall>s'. step os ev s = Inr s' \<longrightarrow>
      (message_boxes s' = message_boxes s @ [(Information, ''Success'', ''Workflow Finished!'')]
       \<longleftrightarrow>
         ev = Finished NormalExit 0 \<and> current_step s = Some ''export''
         \<and> path_exists os
               (path_join os (work_dir s) (strip (output_name s) @ ''.tbcexported.mkv''))))
   \<and> (current_step s = Some ''export'' \<and>
        path_exists os
          (path_join os (work_dir s) (strip (output_name s) @ ''.tbcexported.mkv''))
        \<longrightarrow>
        (\<exists>s'. step os (Finished NormalExit 0) s = Inr s' \<and>
           message_boxes s' =
             message_boxes s @ [(Information, ''Success'', ''Workflow Finished!'')]
           \<and> log_output s' = log_output s
                @ ''\<newline>\<newline>--- ALL TASKS COMPLETED SUCCESSFULLY ---\<newline>''))
   \<and> (current_step s = Some ''export'' \<and>
        \<not> path_exists os
             (path_join os (work_dir s) (strip (output_name s) @ ''.tbcexported.mkv''))
        \<longrightarrow>
        (\<exists>s'. step os (Finished NormalExit 0) s = Inr s' \<and>
           message_boxes s' = message_boxes s
             @ [(Warning, ''Export Failed'',
                 ''The process finished, but the output .mkv file is missing.'')]
           \<and> log_output s' = log_output s
                @ safe_text (''\<newline>\<newline>!!! ERROR: Output file not found !!!\<newline>Expected: ''
                     @ path_join os (work_dir s) (strip (output_name s) @ ''.tbcexported.mkv'')
                     @ ''\<newline>Check log for errors above.'')))
   \<and> (current_step s = Some ''export'' \<and> start_calls (process s) \<noteq> []
        \<and> last (start_calls (process s)) = (program, [tbc, mkv], wd)
        \<and> mkv = strip (output_name s) @ ''.tbcexported.mkv'' \<and> wd = work_dir s
        \<longrightarrow>
        (\<exists>s'. step os (Finished NormalExit 0) s = Inr s' \<and>
           (message_boxes s' =
              message_boxes s @ [(Information, ''Success'', ''Workflow Finished!'')]
            \<longleftrightarrow> path_exists os (path_join os wd mkv))))"
proof (intro conjI allI impI)
  fix s'
  assume r: "step os ev s = Inr s'"
  let ?ok = "ev = Finished NormalExit 0 \<and> current_step s = Some ''export''
         \<and> path_exists os
               (path_join os (work_dir s) (strip (output_name s) @ ''.tbcexported.mkv''))"
  let ?succ = "message_boxes s' =
                 message_boxes s @ [(Information, ''Success'', ''Workflow Finished!'')]"
  show "?succ \<longleftrightarrow> ?ok"
  proof (cases "ev = RunClicked \<or> (\<exists>status code. ev = Finished status code)")
    case False
    with step_message_boxes_cases [OF r] have "message_boxes s' = message_boxes s"
      by blast
    with False show ?thesis
      by auto
  next
    case True
    then show ?thesis
    proof
      assume "ev = RunClicked"
      with r show ?thesis
        by (auto simp: start_process_def message_box_def append_log_text_def save_config_def Let_def
                 split: if_splits)
    next
      assume "\<exists>status code. ev = Finished status code"
      then obtain status code where ev: "ev = Finished status code"
        by blast
      from r show ?thesis
        unfolding ev
        by (cases status)
           (auto simp: process_finished_def start_export_def append_log_text_def
                       message_box_def qprocess_start_def Let_def
                 split: if_splits option.splits)
    qed
  qed
next
  assume "current_step s = Some ''export'' \<and>
        path_exists os
          (path_join os (work_dir s) (strip (output_name s) @ ''.tbcexported.mkv''))"
  then show "\<exists>s'. step os (Finished NormalExit 0) s = Inr s' \<and>
           message_boxes s' =
             message_boxes s @ [(Information, ''Success'', ''Workflow Finished!'')]
           \<and> log_output s' = log_output s
                @ ''\<newline>\<newline>--- ALL TASKS COMPLETED SUCCESSFULLY ---\<newline>''"
    by (simp add: process_finished_def append_log_text_def message_box_def safe_text_def
                  Let_def)
next
  assume "current_step s = Some ''export'' \<and>
        \<not> path_exists os
             (path_join os (work_dir s) (strip (output_name s) @ ''.tbcexported.mkv''))"
  then show "\<exists>s'. step os (Finished NormalExit 0) s = Inr s' \<and>
           message_boxes s' = message_boxes s
             @ [(Warning, ''Export Failed'',
                 ''The process finished, but the output .mkv file is missing.'')]
           \<and> log_output s' = log_output s
                @ safe_text (''\<newline>\<newline>!!! ERROR: Output file not found !!!\<newline>Expected: ''
                     @ path_join os (work_dir s) (strip (output_name s) @ ''.tbcexported.mkv'')
                     @ ''\<newline>Check log for errors above.'')"
    by (simp add: process_finished_def append_log_text_def message_box_def Let_def)
next
  assume "current_step s = Some ''export'' \<and> start_calls (process s) \<noteq> []
        \<and> last (start_calls (process s)) = (program, [tbc, mkv], wd)
        \<and> mkv = strip (output_name s) @ ''.tbcexported.mkv'' \<and> wd = work_dir s"
  then show "\<exists>s'. step os (Finished NormalExit 0) s = Inr s' \<and>
           (message_boxes s' =
              message_boxes s @ [(Information, ''Success'', ''Workflow Finished!'')]
            \<longleftrightarrow> path_exists os (path_join os wd mkv))"
    by (auto simp: process_finished_def append_log_text_def message_box_def Let_def)
qed

theorem success_iff_export_ok_and_artifact_witness:
  "current_step example_exporting = Some ''export''
   \<and> last (start_calls (process example_exporting)) =
       (''/opt/vhs/tbc-video-export.exe'', [''tape1.tbc'', ''tape1.tbcexported.mkv''], ''/cap'')
   \<and> (\<exists>s'. step example_mkv_os (Finished NormalExit 0) example_exporting = Inr s'
         \<and> message_boxes s' = [(Information, ''Success'', ''Workflow Finished!'')])
   \<and> (\<exists>s'. step example_tbc_os (Finished NormalExit 0) example_exporting = Inr s'
         \<and> message_boxes s' =
             [(Warning, ''Export Failed'',
               ''The process finished, but the output .mkv file is missing.'')])"
proof -
  let ?s = "example_exporting"
  let ?ev = "Finished NormalExit 0"
  have cs: "current_step ?s = Some ''export''"
    and wd: "work_dir ?s = ''/cap''"
    and nm: "strip (output_name ?s) = ''tape1''"
    and mb: "message_boxes ?s = []"
    and ne: "start_calls (process ?s) \<noteq> []"
    and la: "last (start_calls (process ?s)) =
       (''/opt/vhs/tbc-video-export.exe'', [''tape1.tbc'', ''tape1.tbcexported.mkv''], ''/cap'')"
    by code_simp+
  have there: "path_exists example_mkv_os
                 (path_join example_mkv_os ''/cap'' ''tape1.tbcexported.mkv'')"
    by code_simp
  have absent: "\<not> path_exists example_tbc_os
                   (path_join example_tbc_os ''/cap'' (''tape1'' @ ''.tbcexported.mkv''))"
    by code_simp
  note present = success_iff_export_ok_and_artifact
    [of example_mkv_os ?ev ?s "''/opt/vhs/tbc-video-export.exe''" "''tape1.tbc''"
        "''tape1.tbcexported.mkv''" "''/cap''"]
  note missing = success_iff_export_ok_and_artifact
    [of example_tbc_os ?ev ?s "''/opt/vhs/tbc-video-export.exe''" "''tape1.tbc''"
        "''tape1.tbcexported.mkv''" "''/cap''"]
  have hyp: "current_step ?s = Some ''export'' \<and> start_calls (process ?s) \<noteq> []
        \<and> last (start_calls (process ?s)) =
            (''/opt/vhs/tbc-video-export.exe'', [''tape1.tbc'', ''tape1.tbcexported.mkv''], ''/cap'')
        \<and> ''tape1.tbcexported.mkv'' = strip (output_name ?s) @ ''.tbcexported.mkv''
        \<and> ''/cap'' = work_dir ?s"
    using cs ne la by (simp add: nm wd)
  from present [THEN conjunct2, THEN conjunct2, THEN conjunct2] hyp
  obtain s1 where s1: "step example_mkv_os ?ev ?s = Inr s1"
    and iff: "message_boxes s1 =
                message_boxes ?s @ [(Information, ''Success'', ''Workflow Finished!'')]
              \<longleftrightarrow> path_exists example_mkv_os
                     (path_join example_mkv_os ''/cap'' ''tape1.tbcexported.mkv'')"
    by blast
  from iff there have "message_boxes s1 =
                message_boxes ?s @ [(Information, ''Success'', ''Workflow Finished!'')]"
    by blast
  with s1 have a: "\<exists>s'. step example_mkv_os ?ev ?s = Inr s'
         \<and> message_boxes s' = [(Information, ''Success'', ''Workflow Finished!'')]"
    by (simp add: mb)
  have hyp2: "current_step ?s = Some ''export'' \<and>
        \<not> path_exists example_tbc_os
             (path_join example_tbc_os (work_dir ?s)
                (strip (output_name ?s) @ ''.tbcexported.mkv''))"
    using cs absent by (simp add: nm wd)
  from missing [THEN conjunct2, THEN conjunct2, THEN conjunct1] hyp2
  obtain s2 where s2: "step example_tbc_os ?ev ?s = Inr s2"
    and wb: "message_boxes s2 = message_boxes ?s
             @ [(Warning, ''Export Failed'',
                 ''The process finished, but the output .mkv file is missing.'')]"
    by blast
  then have b: "\<exists>s'. step example_tbc_os ?ev ?s = Inr s'
         \<and> message_boxes s' =
             [(Warning, ''Export Failed'',
               ''The process finished, but the output .mkv file is missing.'')]"
    by (simp add: mb)
  from cs la a b show ?thesis
    by blast
qed

text \<open>
  A whole run in which the name is edited while the export stage runs: the run is
  started with the output name \<open>tape1\<close>, the decode stage exits with code 0 and
  \<open>tape1.tbc\<close> is there, the export stage is started on \<open>tape1.tbcexported.mkv\<close>, the
  user changes the output name to \<open>tape2\<close>, and the export stage exits with code 0. The
  file \<open>tape1.tbcexported.mkv\<close> exists in the working directory, yet the workflow
  reports "Export Failed": the finish handler looks for \<open>tape2.tbcexported.mkv\<close>.
\<close>

theorem renamed_output_reports_failure:
  "map_sum id (start_calls \<circ> process) (run_events example_renamed_run example_gui) =
     Inr [(''/opt/vhs/decode.exe'',
           [''vhs'', ''--tape_format'', ''vhs'', ''--system'', ''pal'', ''--threads'', ''8'',
            ''--recheck_phase'', ''tape1.u8'', ''/cap/tape1''],
           ''/cap''),
          (''/opt/vhs/tbc-video-export.exe'',
           [''tape1.tbc'', ''tape1.tbcexported.mkv''], ''/cap'')]
   \<and> path_exists example_mkv_os (path_join example_mkv_os ''/cap'' ''tape1.tbcexported.mkv'')
   \<and> map_sum id message_boxes (run_events example_renamed_run example_gui) =
       Inr [(Warning, ''Export Failed'',
             ''The process finished, but the output .mkv file is missing.'')]"
  by code_simp

text \<open>
  C6. If the decode executable, the export executable or the input file does not exist,
  or the output base name is empty (each read from its field and stripped), the run
  request shows an error box and changes nothing else: no process is started, the
  configuration is neither modified nor written, and the workflow step is unchanged.
\<close>

theorem start_process_precondition_error:
  assumes "\<not> path_exists os (strip (path_decode s))
           \<or> \<not> path_exists os (strip (path_export s))
           \<or> \<not> path_exists os (strip (input_file s))
           \<or> strip (output_name s) = []"
  shows "(\<exists>kind text. (kind = Critical \<or> kind = Warning) \<and>
            start_process os s = s\<lparr>message_boxes := message_boxes s @ [(kind, ''Error'', text)]\<rparr>)
         \<and> process (start_process os s) = process s
         \<and> config (start_process os s) = config s
         \<and> config_writes (start_process os s) = config_writes s
         \<and> current_step (start_process os s) = current_step s"
  using assms
  by (auto simp: start_process_def message_box_def Let_def)

theorem start_process_precondition_error_witness:
  "strip (output_name (example_gui\<lparr>output_name := ''  ''\<rparr>)) = []
   \<and> start_process example_os (example_gui\<lparr>output_name := ''  ''\<rparr>) =
       example_gui\<lparr>output_name := ''  '',
                    message_boxes := [(Warning, ''Error'', ''Please specify an output name.'')]\<rparr>
   \<and> \<not> path_exists (posix_os [] True) (strip (path_decode example_gui))
   \<and> start_calls (process (start_process (posix_os [] True) example_gui)) = []
   \<and> config_writes (start_process (posix_os [] True) example_gui) = []
   \<and> config (start_process (posix_os [] True) example_gui) = defaults
   \<and> current_step (start_process (posix_os [] True) example_gui) = None"
proof -
  let ?s = "example_gui\<lparr>output_name := ''  ''\<rparr>"
  have e: "strip (output_name ?s) = []"
    by code_simp
  have m: "\<not> path_exists (posix_os [] True) (strip (path_decode example_gui))"
    by (simp add: posix_os_def)
  have a: "start_process example_os ?s =
       example_gui\<lparr>output_name := ''  '',
                    message_boxes := [(Warning, ''Error'', ''Please specify an output name.'')]\<rparr>"
    by code_simp
  have p: "process example_gui = \<lparr>proc_state = NotRunning, exit_status = NormalExit,
             exit_code = 0, working_directory = '''', start_calls = [], kill_calls = 0\<rparr>"
    and c: "config example_gui = defaults" "config_writes example_gui = []"
           "current_step example_gui = None"
    by (simp_all add: example_gui_def)
  from start_process_precondition_error [of "posix_os [] True" example_gui] m
  have "process (start_process (posix_os [] True) example_gui) = process example_gui
         \<and> config (start_process (posix_os [] True) example_gui) = config example_gui
         \<and> config_writes (start_process (posix_os [] True) example_gui) = config_writes example_gui
         \<and> current_step (start_process (posix_os [] True) example_gui) = current_step example_gui"
    by blast
  with e m a p c show ?thesis
    by simp
qed

text \<open>
  C10. If the decode stage exits normally with code 0 but \<open><outputBase>.tbc\<close> does not
  exist in the working directory, the finish handler starts no process: it logs the
  error, enables the run button (the stop button stays disabled) and returns; nothing
  but the step marker, the two buttons and the log changes.
\<close>

theorem missing_tbc_halts_workflow:
  assumes "current_step s = Some ''decode''"
      and "exit_status (process s) = NormalExit"
      and "exit_code (process s) = 0"
      and "\<not> path_exists os (path_join os (work_dir s) (strip (output_name s) @ ''.tbc''))"
  shows "process_finished os s =
           Inr (s\<lparr>current_step := Some ''export'',
                  btn_run_enabled := True,
                  btn_stop_enabled := False,
                  log_output := log_output s
                    @ ''\<newline>\<newline>--- DECODE COMPLETE. STARTING EXPORT ---\<newline>''
                    @ safe_text (''\<newline>Error: Could not find generated file: ''
                                 @ strip (output_name s) @ ''.tbc'' @ ''\<newline>'')\<rparr>)
         \<and> start_calls (process (projr (process_finished os s))) = start_calls (process s)"
  using assms
  by (simp add: process_finished_def start_export_def append_log_text_def safe_text_def Let_def)

theorem missing_tbc_halts_workflow_witness:
  "\<not> path_exists example_os
        (path_join example_os (work_dir example_decoding)
           (strip (output_name example_decoding) @ ''.tbc''))
   \<and> step example_os (Finished NormalExit 0) example_decoding =
       Inr (example_decoding
              \<lparr>process := (process example_decoding)
                  \<lparr>proc_state := NotRunning, exit_status := NormalExit, exit_code := 0\<rparr>,
                current_step := Some ''export'',
                btn_run_enabled := True,
                btn_stop_enabled := False,
                log_output := log_output example_decoding
                  @ ''\<newline>\<newline>--- DECODE COMPLETE. STARTING EXPORT ---\<newline>''
                  @ ''\<newline>Error: Could not find generated file: tape1.tbc\<newline>''\<rparr>)"
proof -
  let ?s = "example_decoding\<lparr>process := (process example_decoding)
              \<lparr>proc_state := NotRunning, exit_status := NormalExit, exit_code := 0\<rparr>\<rparr>"
  have st: "current_step ?s = Some ''decode''" and wd: "work_dir ?s = ''/cap''"
    and nm: "strip (output_name ?s) = ''tape1''"
    and wd': "work_dir example_decoding = ''/cap''"
    and nm': "strip (output_name example_decoding) = ''tape1''"
    by code_simp+
  have absent: "\<not> path_exists example_os (path_join example_os ''/cap'' (''tape1'' @ ''.tbc''))"
    by code_simp
  have sf: "safe_text (''\<newline>Error: Could not find generated file: '' @ ''tape1'' @ ''.tbc'' @ ''\<newline>'')
            = ''\<newline>Error: Could not find generated file: tape1.tbc\<newline>''"
    by (simp add: safe_text_def)
  from missing_tbc_halts_workflow [of ?s example_os] st absent
  have "process_finished example_os ?s =
           Inr (?s\<lparr>current_step := Some ''export'',
                  btn_run_enabled := True,
                  btn_stop_enabled := False,
                  log_output := log_output ?s
                    @ ''\<newline>\<newline>--- DECODE COMPLETE. STARTING EXPORT ---\<newline>''
                    @ ''\<newline>Error: Could not find generated file: tape1.tbc\<newline>''\<rparr>)"
    unfolding wd nm sf by simp
  with absent show ?thesis
    unfolding wd' nm' by simp
qed

lemma step_start_calls_cases:
  assumes "step os ev s = Inr s'"
    and "start_calls (process s') \<noteq> start_calls (process s)"
  shows "ev = RunClicked \<or> (\<exists>status code. ev = Finished status code)"
  using assms
  by (cases ev)
     (auto simp: process_started_def qprocess_started_def kill_process_def
                 qprocess_kill_def handle_output_def append_log_text_def
                 browse_exe_def browse_input_file_def update_output_name_def closeEvent_def
                 save_config_def Let_def
           split: if_splits exe_field.splits sum.splits)

text \<open>
  C2. In every step of a session, a process is started only by a run request, which
  starts the decode executable, or by the exit of the decode stage with a normal exit
  status and exit code exactly 0, which starts the export executable on the two artifact
  names. When the decode stage exits with a nonzero code or abnormally, the sequence
  halts: no process is started, none is running, and the run button is enabled again.
\<close>

theorem export_started_only_after_decode_ok:
  "(\<forall>s'. step os ev s = Inr s' \<and> start_calls (process s') \<noteq> start_calls (process s) \<longrightarrow>
      (ev = RunClicked \<and> current_step s' = Some ''decode''
       \<and> (\<exists>args. start_calls (process s') =
                    start_calls (process s) @ [(strip (path_decode s), args, work_dir s')]))
      \<or> (ev = Finished NormalExit 0 \<and> current_step s = Some ''decode''
          \<and> current_step s' = Some ''export''
          \<and> start_calls (process s') =
              start_calls (process s)
              @ [(strip (path_export s),
                  [strip (output_name s) @ ''.tbc'', strip (output_name s) @ ''.tbcexported.mkv''],
                  work_dir s)]))
   \<and> (current_step s = Some ''decode'' \<and> (code \<noteq> 0 \<or> status = CrashExit) \<longrightarrow>
        (\<exists>s'. step os (Finished status code) s = Inr s'
              \<and> start_calls (process s') = start_calls (process s)
              \<and> proc_state (process s') = NotRunning
              \<and> current_step s' = Some ''decode''
              \<and> btn_run_enabled s' \<and> \<not> btn_stop_enabled s'))"
proof (intro conjI allI impI)
  fix s'
  assume a: "step os ev s = Inr s' \<and> start_calls (process s') \<noteq> start_calls (process s)"
  then have r: "step os ev s = Inr s'"
    and n: "start_calls (process s') \<noteq> start_calls (process s)"
    by simp_all
  from step_start_calls_cases [OF r n]
  show "(ev = RunClicked \<and> current_step s' = Some ''decode''
       \<and> (\<exists>args. start_calls (process s') =
                    start_calls (process s) @ [(strip (path_decode s), args, work_dir s')]))
      \<or> (ev = Finished NormalExit 0 \<and> current_step s = Some ''decode''
          \<and> current_step s' = Some ''export''
          \<and> start_calls (process s') =
              start_calls (process s)
              @ [(strip (path_export s),
                  [strip (output_name s) @ ''.tbc'', strip (output_name s) @ ''.tbcexported.mkv''],
                  work_dir s)])"
  proof
    assume "ev = RunClicked"
    with r n show ?thesis
      by (auto simp: start_process_def message_box_def append_log_text_def save_config_def
                     qprocess_start_def Let_def
               split: if_splits)
  next
    assume "\<exists>status code. ev = Finished status code"
    then obtain status code where ev: "ev = Finished status code"
      by blast
    from r n show ?thesis
      unfolding ev
      by (cases status)
         (auto simp: process_finished_def start_export_def append_log_text_def
                     message_box_def qprocess_start_def Let_def
               split: if_splits option.splits)
  qed
next
  assume "current_step s = Some ''decode'' \<and> (code \<noteq> 0 \<or> status = CrashExit)"
  then show "\<exists>s'. step os (Finished status code) s = Inr s'
              \<and> start_calls (process s') = start_calls (process s)
              \<and> proc_state (process s') = NotRunning
              \<and> current_step s' = Some ''decode''
              \<and> btn_run_enabled s' \<and> \<not> btn_stop_enabled s'"
    by (cases status)
       (auto simp: process_finished_def append_log_text_def Let_def)
qed

theorem export_started_only_after_decode_ok_witness:
  "(\<exists>s'. step (posix_os (''/cap/tape1.tbc'' # example_files) True) (Finished NormalExit 0)
            example_decoding = Inr s'
         \<and> start_calls (process s') =
             start_calls (process example_decoding)
             @ [(''/opt/vhs/tbc-video-export.exe'',
                 [''tape1.tbc'', ''tape1.tbcexported.mkv''], ''/cap'')])
   \<and> (\<exists>s'. step (posix_os (''/cap/tape1.tbc'' # example_files) True) (Finished NormalExit 1)
              example_decoding = Inr s'
         \<and> start_calls (process s') = start_calls (process example_decoding)
         \<and> proc_state (process s') = NotRunning
         \<and> btn_run_enabled s')"
proof -
  let ?os = "posix_os (''/cap/tape1.tbc'' # example_files) True"
  let ?r = "step ?os (Finished NormalExit 0) example_decoding"
  have cs: "current_step example_decoding = Some ''decode''"
    and pe: "strip (path_export example_decoding) = ''/opt/vhs/tbc-video-export.exe''"
    and nm: "strip (output_name example_decoding) = ''tape1''"
    and wd: "work_dir example_decoding = ''/cap''"
    by code_simp+
  have right: "\<not> isl ?r"
    by code_simp
  then obtain s1 where s1: "?r = Inr s1"
    by (cases ?r) simp_all
  have "length (start_calls (process (projr ?r))) = 2"
    and "length (start_calls (process example_decoding)) = 1"
    by code_simp+
  with s1 have n: "start_calls (process s1) \<noteq> start_calls (process example_decoding)"
    by auto
  from export_started_only_after_decode_ok [of ?os "Finished NormalExit 0" example_decoding 1 NormalExit]
    s1 n
  have a: "start_calls (process s1) =
             start_calls (process example_decoding)
             @ [(''/opt/vhs/tbc-video-export.exe'',
                 [''tape1.tbc'', ''tape1.tbcexported.mkv''], ''/cap'')]"
    unfolding pe nm wd by auto
  from export_started_only_after_decode_ok [of ?os "Finished NormalExit 0" example_decoding 1 NormalExit]
    cs
  have b: "\<exists>s'. step ?os (Finished NormalExit 1) example_decoding = Inr s'
         \<and> start_calls (process s') = start_calls (process example_decoding)
         \<and> proc_state (process s') = NotRunning
         \<and> btn_run_enabled s'"
    by auto
  from s1 a b show ?thesis
    by blast
qed

text \<open>
  C8. When a stage exits normally with a nonzero code, the sequence halts (no process
  is started, the run button is enabled again) and the failure is appended to the log
  with the name of the stage and the exit code. When a stage exits abnormally, the
  sequence halts in the same way, and the finish handler logs and shows nothing: only
  the two buttons change.
\<close>

theorem stage_failure_halts_and_is_logged:
  assumes "current_step s = Some stage"
  shows "(exit_status (process s) = NormalExit \<and> exit_code (process s) \<noteq> 0 \<longrightarrow>
            process_finished os s =
              Inr (s\<lparr>btn_run_enabled := True,
                     btn_stop_enabled := False,
                     log_output := log_output s
                       @ safe_text (''\<newline>!!! '' @ py_upper stage @ '' FAILED (Exit Code ''
                                    @ show_int (exit_code (process s)) @ '') !!!\<newline>'')\<rparr>))
         \<and> (exit_status (process s) = CrashExit \<longrightarrow>
            process_finished os s = Inr (s\<lparr>btn_run_enabled := True, btn_stop_enabled := False\<rparr>))"
  using assms
  by (cases "exit_status (process s)")
     (simp_all add: process_finished_def append_log_text_def Let_def)

theorem stage_failure_halts_and_is_logged_witness:
  "step example_os (Finished NormalExit 1) example_decoding =
     Inr (example_decoding
            \<lparr>process := (process example_decoding)
                \<lparr>proc_state := NotRunning, exit_status := NormalExit, exit_code := 1\<rparr>,
              btn_run_enabled := True,
              btn_stop_enabled := False,
              log_output := log_output example_decoding
                @ ''\<newline>!!! DECODE FAILED (Exit Code 1) !!!\<newline>''\<rparr>)"
proof -
  let ?s = "example_decoding\<lparr>process := (process example_decoding)
              \<lparr>proc_state := NotRunning, exit_status := NormalExit, exit_code := 1\<rparr>\<rparr>"
  have st: "current_step ?s = Some ''decode''"
    by code_simp
  have tx: "safe_text (''\<newline>!!! '' @ py_upper ''decode'' @ '' FAILED (Exit Code ''
                                    @ show_int 1 @ '') !!!\<newline>'')
            = ''\<newline>!!! DECODE FAILED (Exit Code 1) !!!\<newline>''"
    by code_simp
  from stage_failure_halts_and_is_logged [OF st, of example_os] tx show ?thesis
    by simp
qed

text \<open>
  A crash exit of the decode stage with exit code 62097 (the code Qt reports on Windows
  for a killed process): the handler re-enables the run button and returns; the log and
  the message boxes are as before, and the exit code appears nowhere.
\<close>

theorem crash_exit_is_not_reported:
  "step example_os (Finished CrashExit 62097) example_decoding =
     Inr (example_decoding
            \<lparr>process := (process example_decoding)
                \<lparr>proc_state := NotRunning, exit_status := CrashExit, exit_code := 62097\<rparr>,
              btn_run_enabled := True,
              btn_stop_enabled := False\<rparr>)
   \<and> log_output (projr (step example_os (Finished CrashExit 62097) example_decoding)) =
       log_output example_decoding
   \<and> message_boxes (projr (step example_os (Finished CrashExit 62097) example_decoding)) = []
   \<and> \<not> is_substring ''62097''
          (log_output (projr (step example_os (Finished CrashExit 62097) example_decoding)))"
proof -
  have a: "step example_os (Finished CrashExit 62097) example_decoding =
     Inr (example_decoding
            \<lparr>process := (process example_decoding)
                \<lparr>proc_state := NotRunning, exit_status := CrashExit, exit_code := 62097\<rparr>,
              btn_run_enabled := True,
              btn_stop_enabled := False\<rparr>)"
    by (simp add: process_finished_def Let_def)
  have b: "message_boxes example_decoding = []"
    and c: "\<not> is_substring ''62097'' (log_output example_decoding)"
    by code_simp+
  from b c show ?thesis
    unfolding a by simp
qed

section \<open>Properties of configuration persistence\<close>

lemma step_config_writes_cases:
  assumes "step os ev s = Inr s'"
    and "config_writes s' \<noteq> config_writes s"
  shows "ev = RunClicked \<or> ev = CloseWindow"
  using assms
  by (cases ev)
     (auto simp: process_started_def qprocess_started_def kill_process_def
                 handle_output_def append_log_text_def browse_exe_def
                 browse_input_file_def update_output_name_def process_finished_def
                 start_export_def message_box_def Let_def
           split: if_splits exe_field.splits sum.splits option.splits)

text \<open>
  C9, as the code has it. In every step of a session, the configuration record is
  written to disk only by closing the window and by a run request whose four
  preconditions hold; what is written is the record as the step leaves it. When the file
  can be opened for writing, both of these steps do write: closing the window writes the
  record with the window size, and an accepted run request writes the record with the
  two tool paths and the input file.
\<close>

theorem config_written_on_close_and_accepted_run:
  "(\<forall>s'. step os ev s = Inr s' \<and> config_writes s' \<noteq> config_writes s \<longrightarrow>
      config_writable os \<and> config_writes s' = config_writes s @ [config s']
      \<and> (ev = CloseWindow
          \<or> (ev = RunClicked
              \<and> path_exists os (strip (path_decode s))
              \<and> path_exists os (strip (path_export s))
              \<and> path_exists os (strip (input_file s))
              \<and> strip (output_name s) \<noteq> [])))
   \<and> (config_writable os \<longrightarrow>
        (\<exists>s'. step os CloseWindow s = Inr s'
              \<and> config_writes s' =
                  config_writes s
                  @ [dict_set (dict_set (config s) ''window_width'' (JInt (win_width s)))
                       ''window_height'' (JInt (win_height s))]))
   \<and> (config_writable os
        \<and> path_exists os (strip (path_decode s))
        \<and> path_exists os (strip (path_export s))
        \<and> path_exists os (strip (input_file s))
        \<and> strip (output_name s) \<noteq> [] \<longrightarrow>
        (\<exists>s'. step os RunClicked s = Inr s'
              \<and> config_writes s' =
                  config_writes s
                  @ [dict_set
                       (dict_set
                          (dict_set (config s) ''decode_path'' (JString (strip (path_decode s))))
                          ''tbc_export_path'' (JString (strip (path_export s))))
                       ''last_input_file'' (JString (strip (input_file s)))]))"
proof (intro conjI allI impI)
  fix s'
  assume a: "step os ev s = Inr s' \<and> config_writes s' \<noteq> config_writes s"
  then have r: "step os ev s = Inr s'" and n: "config_writes s' \<noteq> config_writes s"
    by simp_all
  from step_config_writes_cases [OF r n]
  have c: "ev = RunClicked \<or> ev = CloseWindow" .
  from c r n show "config_writable os"
    by (auto simp: start_process_def closeEvent_def save_config_def message_box_def
                   append_log_text_def Let_def
             split: if_splits)
  from c r n show "config_writes s' = config_writes s @ [config s']"
    by (auto simp: start_process_def closeEvent_def save_config_def message_box_def
                   append_log_text_def Let_def
             split: if_splits)
  from c r n show "ev = CloseWindow
          \<or> (ev = RunClicked
              \<and> path_exists os (strip (path_decode s))
              \<and> path_exists os (strip (path_export s))
              \<and> path_exists os (strip (input_file s))
              \<and> strip (output_name s) \<noteq> [])"
    by (auto simp: start_process_def message_box_def Let_def split: if_splits)
next
  assume "config_writable os"
  then show "\<exists>s'. step os CloseWindow s = Inr s'
              \<and> config_writes s' =
                  config_writes s
                  @ [dict_set (dict_set (config s) ''window_width'' (JInt (win_width s)))
                       ''window_height'' (JInt (win_height s))]"
    by (simp add: closeEvent_def save_config_def Let_def)
next
  assume "config_writable os
        \<and> path_exists os (strip (path_decode s))
        \<and> path_exists os (strip (path_export s))
        \<and> path_exists os (strip (input_file s))
        \<and> strip (output_name s) \<noteq> []"
  then show "\<exists>s'. step os RunClicked s = Inr s'
              \<and> config_writes s' =
                  config_writes s
                  @ [dict_set
                       (dict_set
                          (dict_set (config s) ''decode_path'' (JString (strip (path_decode s))))
                          ''tbc_export_path'' (JString (strip (path_export s))))
                       ''last_input_file'' (JString (strip (input_file s)))]"
    by (simp add: start_process_def save_config_def append_log_text_def Let_def)
qed

theorem config_written_on_close_and_accepted_run_witness:
  "(\<exists>s'. step example_os CloseWindow (example_gui\<lparr>win_width := 1024\<rparr>) = Inr s'
         \<and> config_writes s' =
             [[(''decode_path'', JString ''''), (''tbc_export_path'', JString ''''),
               (''last_input_file'', JString ''''), (''window_width'', JInt 1024),
               (''window_height'', JInt 750)]])
   \<and> (\<exists>s'. step example_os RunClicked example_gui = Inr s'
         \<and> config_writes s' \<noteq> config_writes example_gui
         \<and> config_writes s' = [config s'])"
proof -
  let ?s = "example_gui\<lparr>win_width := 1024\<rparr>"
  have w: "config_writable example_os"
    and pre: "path_exists example_os (strip (path_decode example_gui))"
      "path_exists example_os (strip (path_export example_gui))"
      "path_exists example_os (strip (input_file example_gui))"
      "strip (output_name example_gui) \<noteq> []"
    and cw: "config_writes ?s = []" "config_writes example_gui = []"
    and d: "dict_set (dict_set (config ?s) ''window_width'' (JInt (win_width ?s)))
                       ''window_height'' (JInt (win_height ?s))
            = [(''decode_path'', JString ''''), (''tbc_export_path'', JString ''''),
               (''last_input_file'', JString ''''), (''window_width'', JInt 1024),
               (''window_height'', JInt 750)]"
    by code_simp+
  from config_written_on_close_and_accepted_run [of example_os CloseWindow ?s] w
  have a: "\<exists>s'. step example_os CloseWindow ?s = Inr s'
         \<and> config_writes s' =
             [[(''decode_path'', JString ''''), (''tbc_export_path'', JString ''''),
               (''last_input_file'', JString ''''), (''window_width'', JInt 1024),
               (''window_height'', JInt 750)]]"
    unfolding d cw by simp
  from config_written_on_close_and_accepted_run [of example_os RunClicked example_gui] w pre
  obtain s1 where s1: "step example_os RunClicked example_gui = Inr s1"
    and c1: "config_writes s1 \<noteq> config_writes example_gui"
    unfolding cw by auto
  from config_written_on_close_and_accepted_run [of example_os RunClicked example_gui] s1 c1
  have "config_writes s1 = [config s1]"
    unfolding cw by auto
  with a s1 c1 show ?thesis
    by blast
qed

text \<open>
  A run request in the concrete session, with nothing written before: the configuration
  with the two tool paths and the input file is written although the window stays open.
\<close>

theorem run_request_writes_config:
  "config_writes example_gui = []
   \<and> config_writes (projr (step example_os RunClicked example_gui)) =
       [[(''decode_path'', JString ''/opt/vhs/decode.exe''),
         (''tbc_export_path'', JString ''/opt/vhs/tbc-video-export.exe''),
         (''last_input_file'', JString ''/cap/tape1.u8''),
         (''window_width'', JInt 900), (''window_height'', JInt 750)]]"
  by code_simp

section \<open>Properties of stopping a process\<close>

text \<open>
  C7, as the code has it. \<open>stop_process\<close> of the monitor worker called twice in
  succession is idempotent, and so is \<open>stop\<close>: whatever \<open>terminate\<close>, \<open>wait\<close> and
  \<open>kill\<close> raised in the first call, the second call makes no call on a process handle,
  raises nothing and leaves the worker as the first call left it; on a worker without a
  handle it only clears the running flag. \<open>kill_process\<close> of the workflow window does
  nothing when the process is not running, in particular after it has exited and no
  other process was started; while the process is reported as running, each call leaves
  that state as it is, so a second call in succession calls \<open>kill()\<close> again and appends
  the stop notice to the log again.
\<close>

theorem stop_process_idempotent_kill_process_guarded:
  "stop_process os2 (snd (stop_process os1 w)) = ([], snd (stop_process os1 w))
   \<and> stop os2 (snd (stop os1 w)) = ([], snd (stop os1 w))
   \<and> wprocess (snd (stop_process os1 w)) = None
   \<and> \<not> is_running (snd (stop_process os1 w))
   \<and> (wprocess w = None \<longrightarrow> stop_process os1 w = ([], w\<lparr>is_running := False\<rparr>))
   \<and> (proc_state (process s) \<noteq> Running \<longrightarrow> kill_process s = s)
   \<and> (\<forall>s'. step os (Finished status code) s = Inr s'
             \<and> start_calls (process s') = start_calls (process s)
          \<longrightarrow> kill_process s' = s')
   \<and> (proc_state (process s) = Running \<longrightarrow>
        proc_state (process (kill_process s)) = Running
        \<and> kill_calls (process (kill_process (kill_process s))) = kill_calls (process s) + 2
        \<and> log_output (kill_process (kill_process s)) =
            log_output s @ ''\<newline>\<newline>!!! PROCESS STOPPED BY USER !!!\<newline>''
              @ ''\<newline>\<newline>!!! PROCESS STOPPED BY USER !!!\<newline>'')"
proof (intro conjI allI impI)
  assume run: "proc_state (process s) = Running"
  then show "proc_state (process (kill_process s)) = Running"
    by (simp add: kill_process_def qprocess_kill_def append_log_text_def)
  from run show "kill_calls (process (kill_process (kill_process s))) = kill_calls (process s) + 2"
    by (simp add: kill_process_def qprocess_kill_def append_log_text_def)
  from run show "log_output (kill_process (kill_process s)) =
            log_output s @ ''\<newline>\<newline>!!! PROCESS STOPPED BY USER !!!\<newline>''
              @ ''\<newline>\<newline>!!! PROCESS STOPPED BY USER !!!\<newline>''"
    by (simp add: kill_process_def qprocess_kill_def append_log_text_def safe_text_def)
next
  show "stop_process os2 (snd (stop_process os1 w)) = ([], snd (stop_process os1 w))"
    by (simp add: stop_process_def Let_def split: option.splits)
  show "stop os2 (snd (stop os1 w)) = ([], snd (stop os1 w))"
    by (simp add: stop_def stop_process_def Let_def split: option.splits)
  show "wprocess (snd (stop_process os1 w)) = None"
    by (simp add: stop_process_def Let_def split: option.splits)
  show "\<not> is_running (snd (stop_process os1 w))"
    by (simp add: stop_process_def Let_def split: option.splits)
next
  assume "wprocess w = None"
  then show "stop_process os1 w = ([], w\<lparr>is_running := False\<rparr>)"
    by (simp add: stop_process_def Let_def)
next
  assume "proc_state (process s) \<noteq> Running"
  then show "kill_process s = s"
    by (simp add: kill_process_def)
next
  fix s'
  assume "step os (Finished status code) s = Inr s'
             \<and> start_calls (process s') = start_calls (process s)"
  then have "proc_state (process s') \<noteq> Running"
    by (cases status)
       (auto simp: process_finished_def start_export_def append_log_text_def
                   message_box_def qprocess_start_def Let_def
             split: if_splits option.splits)
  then show "kill_process s' = s'"
    by (simp add: kill_process_def)
qed

theorem stop_process_idempotent_kill_process_guarded_witness:
  "stop_process \<lparr>terminate_raises = False, wait_raises = True, kill_raises = False\<rparr>
     \<lparr>device_id = 0, is_running = True, wprocess = Some 1\<rparr>
     = ([Terminate, Wait, Kill], \<lparr>device_id = 0, is_running = False, wprocess = None\<rparr>)
   \<and> stop_process \<lparr>terminate_raises = False, wait_raises = True, kill_raises = False\<rparr>
       \<lparr>device_id = 0, is_running = False, wprocess = None\<rparr>
     = ([], \<lparr>device_id = 0, is_running = False, wprocess = None\<rparr>)
   \<and> proc_state (process example_gui) \<noteq> Running
   \<and> kill_process example_gui = example_gui
   \<and> (\<exists>s'. step example_os (Finished CrashExit 62097) (kill_process example_decoding) = Inr s'
         \<and> kill_process s' = s')
   \<and> proc_state (process example_decoding) = Running
   \<and> proc_state (process (kill_process example_decoding)) = Running
   \<and> kill_calls (process (kill_process (kill_process example_decoding))) = 2"
proof -
  let ?os = "\<lparr>terminate_raises = False, wait_raises = True, kill_raises = False\<rparr>"
  let ?w = "\<lparr>device_id = 0, is_running = True, wprocess = Some 1\<rparr>"
  let ?k = "kill_process example_decoding"
  let ?k' = "?k\<lparr>process := (process ?k)
                        \<lparr>proc_state := NotRunning, exit_status := CrashExit, exit_code := 62097\<rparr>,
                      btn_run_enabled := True, btn_stop_enabled := False\<rparr>"
  note inst = stop_process_idempotent_kill_process_guarded
    [of ?os ?os ?w example_gui example_os CrashExit 62097]
  note inst2 = stop_process_idempotent_kill_process_guarded
    [of ?os ?os ?w ?k example_os CrashExit 62097]
  have a: "stop_process ?os ?w
     = ([Terminate, Wait, Kill], \<lparr>device_id = 0, is_running = False, wprocess = None\<rparr>)"
    by (simp add: stop_process_def)
  from inst [THEN conjunct1]
  have b: "stop_process ?os \<lparr>device_id = 0, is_running = False, wprocess = None\<rparr>
     = ([], \<lparr>device_id = 0, is_running = False, wprocess = None\<rparr>)"
    unfolding a by simp
  have n: "proc_state (process example_gui) \<noteq> Running"
    by (simp add: example_gui_def)
  note g = inst [THEN conjunct2, THEN conjunct2, THEN conjunct2, THEN conjunct2,
                 THEN conjunct2]
  from g [THEN conjunct1] n have c: "kill_process example_gui = example_gui"
    by (rule mp)
  have r: "step example_os (Finished CrashExit 62097) ?k = Inr ?k'"
    by (simp add: process_finished_def Let_def)
  have sc: "start_calls (process ?k') = start_calls (process ?k)"
    by simp
  note g2 = inst2 [THEN conjunct2, THEN conjunct2, THEN conjunct2, THEN conjunct2,
                   THEN conjunct2, THEN conjunct2, THEN conjunct1, THEN spec, of ?k']
  from g2 r sc have "kill_process ?k' = ?k'"
    by blast
  with r have d: "\<exists>s'. step example_os (Finished CrashExit 62097) ?k = Inr s'
         \<and> kill_process s' = s'"
    by blast
  have ru: "proc_state (process example_decoding) = Running"
    and k0: "kill_calls (process example_decoding) = 0"
    by code_simp+
  note g3 = stop_process_idempotent_kill_process_guarded
    [of ?os ?os ?w example_decoding example_os CrashExit 62097,
     THEN conjunct2, THEN conjunct2, THEN conjunct2, THEN conjunct2,
     THEN conjunct2, THEN conjunct2, THEN conjunct2]
  from g3 ru k0
  have e: "proc_state (process (kill_process example_decoding)) = Running
           \<and> kill_calls (process (kill_process (kill_process example_decoding))) = 2"
    by simp
  from a b n c d ru e show ?thesis
    by blast
qed

text \<open>
  \<open>kill_process\<close> called twice in succession while the decode stage is running: the
  second call finds the state still \<open>Running\<close>, calls \<open>kill()\<close> again and appends the
  stop notice to the log a second time, so the state changes again.
\<close>

theorem kill_process_twice_kills_twice:
  "proc_state (process example_decoding) = Running
   \<and> kill_calls (process (kill_process example_decoding)) = 1
   \<and> kill_calls (process (kill_process (kill_process example_decoding))) = 2
   \<and> log_output (kill_process (kill_process example_decoding)) =
       log_output (kill_process example_decoding)
       @ ''\<newline>\<newline>!!! PROCESS STOPPED BY USER !!!\<newline>''
   \<and> kill_process (kill_process example_decoding) \<noteq> kill_process example_decoding"
proof -
  have a: "proc_state (process example_decoding) = Running"
    and b: "kill_calls (process (kill_process example_decoding)) = 1"
    and c: "kill_calls (process (kill_process (kill_process example_decoding))) = 2"
    and d: "log_output (kill_process (kill_process example_decoding)) =
       log_output (kill_process example_decoding)
       @ ''\<newline>\<newline>!!! PROCESS STOPPED BY USER !!!\<newline>''"
    by code_simp+
  from b c have "kill_process (kill_process example_decoding) \<noteq> kill_process example_decoding"
    by auto
  with a b c d show ?thesis
    by blast
qed

end
